theory Spec2Isabelle
  imports Complex_Main
begin

section \<open>The curriculum schedule of \<open>04_training_long_sequences.ipynb\<close>\<close>

text \<open>
  The notebook's one piece of local logic is the sequence-length schedule and the dataset
  class built on it:
  \<^verbatim>\<open>
  max_length = 4096
  min_length = 1024
  num_epochs = 3

  def get_sequence_length(epoch):
      return min(max_length, min_length + (max_length - min_length) * epoch // num_epochs)
  \<close>
  Python integers are unbounded, so they are \<open>int\<close>. The function reads three module
  globals at call time; the model passes them in a record. \<open>*\<close> and \<open>//\<close> have the same
  precedence and associate to the left, so the product is formed first and then divided.
  \<open>//\<close> on integers is floor division, which is \<open>div\<close> on \<open>int\<close>, except that a zero
  divisor raises \<open>ZeroDivisionError\<close> where HOL returns 0; that branch is written out.
\<close>

datatype py_error = ZeroDivisionError | IndexError | KeyError

record globals =
  max_length :: int
  min_length :: int
  num_epochs :: int

definition module_globals :: globals where
  "module_globals = \<lparr>max_length = 4096, min_length = 1024, num_epochs = 3\<rparr>"

definition floordiv :: "int \<Rightarrow> int \<Rightarrow> py_error + int" where
  "floordiv a b = (if b = 0 then Inl ZeroDivisionError else Inr (a div b))"

definition get_sequence_length :: "globals \<Rightarrow> int \<Rightarrow> py_error + int" where
  "get_sequence_length g epoch =
     (case floordiv ((max_length g - min_length g) * epoch) (num_epochs g) of
        Inl e \<Rightarrow> Inl e
      | Inr q \<Rightarrow> Inr (min (max_length g) (min_length g + q)))"

text \<open>
  The closed form as the data model words it, with a real quotient and a floor:
  \<open>min(max_length, min_length + floor((max_length - min_length) * epoch / total_epochs))\<close>.
\<close>

definition schedule_spec :: "int \<Rightarrow> int \<Rightarrow> int \<Rightarrow> int \<Rightarrow> int" where
  "schedule_spec epoch m M T =
     min M (m + \<lfloor>real_of_int ((M - m) * epoch) / real_of_int T\<rfloor>)"

section \<open>The dataset class\<close>

text \<open>
  \<^verbatim>\<open>
  class CurriculumDataset(torch.utils.data.Dataset):
      def __init__(self, dataset, tokenizer, epoch):
          self.dataset = dataset
          self.tokenizer = tokenizer
          self.seq_length = get_sequence_length(epoch)

      def __len__(self):
          return len(self.dataset)

      def __getitem__(self, idx):
          item = self.dataset[idx]
          encoding = self.tokenizer(item['text'], truncation=True, padding='max_length',
                                    max_length=self.seq_length, return_tensors='pt')
          encoding['labels'] = encoding['input_ids'].clone()
          encoding['labels'][encoding['input_ids'] == self.tokenizer.pad_token_id] = -100
          return {key: val.squeeze(0) for key, val in encoding.items()}
  \<close>
  The corpus and the tokenizer are objects of external libraries (\<open>datasets\<close>,
  \<open>transformers\<close>); the class only calls them. What the model takes from them is stated
  at each definition below.
\<close>

subsection \<open>The corpus\<close>

text \<open>
  A row of the corpus is a record with a \<open>text\<close> column (the loaded corpus has that
  column in every row, so \<open>item['text']\<close> always finds it). The corpus
  (\<open>dataset['train']\<close>) is a sequence of rows. Indexing it with an integer follows the
  Python sequence protocol, which the \<open>datasets\<close> table implements too: an index \<open>i\<close>
  with \<open>-n \<le> i < n\<close> selects a row, a negative one counting from the end, and every
  other index raises \<open>IndexError\<close>.
\<close>

record item =
  item_text :: string

definition dataset_getitem :: "'a list \<Rightarrow> int \<Rightarrow> py_error + 'a" where
  "dataset_getitem rows i =
     (let n = int (length rows) in
      if i < - n \<or> n \<le> i then Inl IndexError
      else if i < 0 then Inr (rows ! nat (i + n))
      else Inr (rows ! nat i))"

subsection \<open>Tensors and the tokenizer\<close>

text \<open>
  With \<open>return_tensors='pt'\<close> the tokenizer returns a dictionary of two-dimensional
  integer tensors (batch \<open>\<times>\<close> positions); such a tensor is the list of its rows.
  \<open>squeeze(0)\<close> drops the first dimension when its size is 1 and is the identity
  otherwise, so its result has one dimension or two.
\<close>

datatype tensor = Vec "int list" | Mat "int list list"

definition squeeze0 :: "int list list \<Rightarrow> tensor" where
  "squeeze0 t = (case t of [row] \<Rightarrow> Vec row | _ \<Rightarrow> Mat t)"

text \<open>
  \<open>clone()\<close> makes a fresh tensor with the same contents. Tensors are values here, so
  the copy is the value itself; the later assignment into the copy cannot reach
  \<open>input_ids\<close>, exactly because the source clones first.
\<close>

definition clone :: "int list list \<Rightarrow> int list list" where
  "clone t = t"

text \<open>\<open>t == v\<close> with a scalar \<open>v\<close>: the elementwise comparison, a boolean tensor.\<close>

definition eq_scalar :: "int list list \<Rightarrow> int \<Rightarrow> bool list list" where
  "eq_scalar t v = map (map (\<lambda>x. x = v)) t"

text \<open>
  \<open>t[mask] = v\<close> with a boolean mask: the positions where the mask is true receive
  \<open>v\<close>. A mask of another shape raises \<open>IndexError\<close>.
\<close>

definition masked_assign :: "int list list \<Rightarrow> bool list list \<Rightarrow> int \<Rightarrow> py_error + int list list" where
  "masked_assign t msk v =
     (if map length msk = map length t
      then Inr (map2 (\<lambda>row mrow. map2 (\<lambda>x b. if b then v else x) row mrow) t msk)
      else Inl IndexError)"

text \<open>
  The tokenizer is a parameter. It reports a padding token id, and its call with
  \<open>truncation=True, padding='max_length', return_tensors='pt'\<close> is a function of the
  text and of \<open>max_length\<close>: it yields the \<open>input_ids\<close> tensor and whatever other
  model inputs it provides (an \<open>attention_mask\<close>, usually). The returned dictionary
  always has the key \<open>input_ids\<close>.
\<close>

record tokenizer =
  pad_token_id :: int
  input_ids_of :: "string \<Rightarrow> int \<Rightarrow> int list list"
  others_of :: "string \<Rightarrow> int \<Rightarrow> (string \<rightharpoonup> int list list)"

definition tokenizer_call :: "tokenizer \<Rightarrow> string \<Rightarrow> int \<Rightarrow> (string \<rightharpoonup> int list list)" where
  "tokenizer_call tok txt max_len =
     (others_of tok txt max_len)(''input_ids'' \<mapsto> input_ids_of tok txt max_len)"

text \<open>
  Modelled from the spec: the truncation and padding of the tokenizer, which is library
  code and not in the notebook. The collaborator "must support truncating/padding text
  to an exact target length"; for a call with one text and \<open>return_tensors='pt'\<close> that
  is: the \<open>input_ids\<close> are one row of exactly that many positions.
\<close>

definition pads_to :: "tokenizer \<Rightarrow> string \<Rightarrow> int \<Rightarrow> bool" where
  "pads_to tok txt l =
     (case input_ids_of tok txt l of [row] \<Rightarrow> int (length row) = l | _ \<Rightarrow> False)"

definition dict_getitem :: "('k \<rightharpoonup> 'v) \<Rightarrow> 'k \<Rightarrow> py_error + 'v" where
  "dict_getitem d k = (case d k of None \<Rightarrow> Inl KeyError | Some v \<Rightarrow> Inr v)"

subsection \<open>The class\<close>

record curriculum_dataset =
  dataset :: "item list"
  tokenizer :: tokenizer
  seq_length :: int

type_synonym example = "string \<rightharpoonup> tensor"

definition CurriculumDataset_init ::
    "globals \<Rightarrow> item list \<Rightarrow> tokenizer \<Rightarrow> int \<Rightarrow> py_error + curriculum_dataset" where
  "CurriculumDataset_init g ds tok epoch =
     (case get_sequence_length g epoch of
        Inl e \<Rightarrow> Inl e
      | Inr l \<Rightarrow> Inr \<lparr>dataset = ds, tokenizer = tok, seq_length = l\<rparr>)"

definition CurriculumDataset_len :: "curriculum_dataset \<Rightarrow> int" where
  "CurriculumDataset_len self = int (length (dataset self))"

text \<open>
  \<open>__getitem__\<close> receives the object and could assign to its attributes; the model
  returns the object as it is after the call beside the result. The body assigns to no
  attribute, so that object is \<open>self\<close>. An exception of any step ends the call.
\<close>

definition CurriculumDataset_getitem ::
    "curriculum_dataset \<Rightarrow> int \<Rightarrow> (py_error + example) \<times> curriculum_dataset" where
  "CurriculumDataset_getitem self idx =
     (let result =
        (case dataset_getitem (dataset self) idx of
           Inl e \<Rightarrow> Inl e
         | Inr item \<Rightarrow>
             let encoding = tokenizer_call (tokenizer self) (item_text item) (seq_length self) in
             (case dict_getitem encoding ''input_ids'' of
                Inl e \<Rightarrow> Inl e
              | Inr ids \<Rightarrow>
                  let encoding = encoding(''labels'' \<mapsto> clone ids) in
                  (case dict_getitem encoding ''labels'' of
                     Inl e \<Rightarrow> Inl e
                   | Inr labels \<Rightarrow>
                       (case dict_getitem encoding ''input_ids'' of
                          Inl e \<Rightarrow> Inl e
                        | Inr ids' \<Rightarrow>
                            (case masked_assign labels
                                    (eq_scalar ids' (pad_token_id (tokenizer self))) (- 100) of
                               Inl e \<Rightarrow> Inl e
                             | Inr labels' \<Rightarrow>
                                 let encoding = encoding(''labels'' \<mapsto> labels') in
                                 Inr (\<lambda>key. map_option squeeze0 (encoding key)))))))
      in (result, self))"

subsection \<open>The class on a store of objects\<close>

text \<open>
  The definitions above treat tensors and dictionaries as values, which settles what an
  example contains. What a call does to the objects around it needs the objects
  themselves: \<open>__getitem__\<close> writes twice, into the dictionary that the tokenizer
  returned (\<open>encoding['labels'] = ...\<close>) and, in place, into a tensor
  (\<open>encoding['labels'][...] = -100\<close>). Here the same method runs on a store. An address
  is a position in the list of objects and allocation appends. An object is a tensor or
  an encoding, a dictionary from keys to the addresses of its tensors in insertion order.
\<close>

datatype obj = TensorObj "int list list" | EncodingObj "(string \<times> nat) list"

text \<open>
  A Python run raises or returns. \<open>Stuck\<close> is the third outcome the model needs: the
  store has no object of the expected kind at an address. Python has no dangling
  reference, so no run of the notebook gets there.
\<close>

datatype run_error = Raises py_error | Stuck

definition tensor_at :: "obj list \<Rightarrow> nat \<Rightarrow> int list list option" where
  "tensor_at h a =
     (if a < length h then (case h ! a of TensorObj t \<Rightarrow> Some t | EncodingObj d \<Rightarrow> None)
      else None)"

definition encoding_at :: "obj list \<Rightarrow> nat \<Rightarrow> (string \<times> nat) list option" where
  "encoding_at h a =
     (if a < length h then (case h ! a of EncodingObj d \<Rightarrow> Some d | TensorObj t \<Rightarrow> None)
      else None)"

text \<open>
  \<open>d[k] = v\<close> on a dictionary: an existing key keeps its place and takes the new value, a
  new key goes to the end.
\<close>

fun dict_setitem :: "('k \<times> 'v) list \<Rightarrow> 'k \<Rightarrow> 'v \<Rightarrow> ('k \<times> 'v) list" where
  "dict_setitem [] k v = [(k, v)]"
| "dict_setitem ((k', v') # d) k v =
     (if k' = k then (k, v) # d else (k', v') # dict_setitem d k v)"

text \<open>The items of a dictionary with the contents of the tensors they refer to.\<close>

fun deref_items :: "obj list \<Rightarrow> (string \<times> nat) list \<Rightarrow> (string \<times> int list list) list option" where
  "deref_items h [] = Some []"
| "deref_items h ((key, a) # d) =
     (case tensor_at h a of
        None \<Rightarrow> None
      | Some t \<Rightarrow> (case deref_items h d of None \<Rightarrow> None | Some r \<Rightarrow> Some ((key, t) # r)))"

text \<open>
  The corpus and the tokenizer are objects with a state of their own, which a call may
  change. Each method takes the state of its object and returns it as it is after the
  call. The tokenizer call works on the store too: it returns the address of the
  encoding, and the store after the call.
\<close>

record ('c, 't) library =
  corpus_getitem :: "'c \<Rightarrow> int \<Rightarrow> (py_error + item) \<times> 'c"
  tokenizer_call_obj :: "'t \<Rightarrow> obj list \<Rightarrow> string \<Rightarrow> int \<Rightarrow> nat \<times> obj list \<times> 't"
  tokenizer_pad_token_id :: "'t \<Rightarrow> int"

text \<open>
  What \<open>__getitem__\<close> can reach: the three attributes of \<open>self\<close>, with the corpus
  and the tokenizer they refer to, and the store.
\<close>

record ('c, 't) pystate =
  self_dataset :: 'c
  self_tokenizer :: 't
  self_seq_length :: int
  heap :: "obj list"

text \<open>
  \<open>encoding['labels'] = encoding['input_ids'].clone()\<close>: the clone is a new object at
  the end of the store, and the dictionary object is updated where it is.
\<close>

definition assign_labels_clone :: "obj list \<Rightarrow> nat \<Rightarrow> run_error + obj list" where
  "assign_labels_clone h encoding =
     (case encoding_at h encoding of
        None \<Rightarrow> Inl Stuck
      | Some d \<Rightarrow>
          (case map_of d ''input_ids'' of
             None \<Rightarrow> Inl (Raises KeyError)
           | Some a \<Rightarrow>
               (case tensor_at h a of
                  None \<Rightarrow> Inl Stuck
                | Some t \<Rightarrow>
                    Inr ((h @ [TensorObj (clone t)])
                           [encoding := EncodingObj (dict_setitem d ''labels'' (length h))]))))"

text \<open>
  \<open>encoding['labels'][encoding['input_ids'] == pad] = -100\<close>: the tensor that
  \<open>'labels'\<close> refers to is overwritten where it is.
\<close>

definition mask_labels :: "obj list \<Rightarrow> nat \<Rightarrow> int \<Rightarrow> run_error + obj list" where
  "mask_labels h encoding pad =
     (case encoding_at h encoding of
        None \<Rightarrow> Inl Stuck
      | Some d \<Rightarrow>
          (case map_of d ''labels'' of
             None \<Rightarrow> Inl (Raises KeyError)
           | Some a_labels \<Rightarrow>
               (case map_of d ''input_ids'' of
                  None \<Rightarrow> Inl (Raises KeyError)
                | Some a_ids \<Rightarrow>
                    (case tensor_at h a_labels of
                       None \<Rightarrow> Inl Stuck
                     | Some labels \<Rightarrow>
                         (case tensor_at h a_ids of
                            None \<Rightarrow> Inl Stuck
                          | Some ids \<Rightarrow>
                              (case masked_assign labels (eq_scalar ids pad) (- 100) of
                                 Inl e \<Rightarrow> Inl (Raises e)
                               | Inr labels' \<Rightarrow> Inr (h[a_labels := TensorObj labels'])))))))"

text \<open>
  \<open>{key: val.squeeze(0) for key, val in encoding.items()}\<close>: the example, read from
  the store at the moment of return.
\<close>

definition squeeze_items :: "obj list \<Rightarrow> nat \<Rightarrow> run_error + (string \<times> tensor) list" where
  "squeeze_items h encoding =
     (case encoding_at h encoding of
        None \<Rightarrow> Inl Stuck
      | Some d \<Rightarrow>
          (case deref_items h d of
             None \<Rightarrow> Inl Stuck
           | Some items \<Rightarrow> Inr (map (\<lambda>(key, val). (key, squeeze0 val)) items)))"

definition CurriculumDataset_getitem_store ::
    "('c, 't) library \<Rightarrow> ('c, 't) pystate \<Rightarrow> int
       \<Rightarrow> (run_error + (string \<times> tensor) list) \<times> ('c, 't) pystate" where
  "CurriculumDataset_getitem_store lib s idx =
     (case corpus_getitem lib (self_dataset s) idx of
        (Inl e, c) \<Rightarrow> (Inl (Raises e), s\<lparr>self_dataset := c\<rparr>)
      | (Inr item, c) \<Rightarrow>
          (case tokenizer_call_obj lib (self_tokenizer s) (heap s) (item_text item)
                  (self_seq_length s) of
             (encoding, h1, t) \<Rightarrow>
               let s1 = s\<lparr>self_dataset := c, self_tokenizer := t, heap := h1\<rparr> in
               (case assign_labels_clone (heap s1) encoding of
                  Inl e \<Rightarrow> (Inl e, s1)
                | Inr h2 \<Rightarrow>
                    let s2 = s1\<lparr>heap := h2\<rparr> in
                    (case mask_labels (heap s2) encoding
                            (tokenizer_pad_token_id lib (self_tokenizer s2)) of
                       Inl e \<Rightarrow> (Inl e, s2)
                     | Inr h3 \<Rightarrow>
                         let s3 = s2\<lparr>heap := h3\<rparr> in
                         (squeeze_items (heap s3) encoding, s3)))))"

text \<open>
  Modelled from the spec: the behaviour of the two collaborators as objects, which is
  library code and not in the notebook. The corpus is "immutable; owned externally":
  looking a row up leaves it as it was. The tokenizer is a capability to "map raw text"
  to token ids, truncated or padded "to a target length", and there is "no shared
  mutable state": its call leaves the tokenizer as it was and changes no object that
  exists already, the encoding it returns is a new object, and the contents of the
  encoding's tensors are a function \<open>contents\<close> of the text and the target length alone.
\<close>

definition returns_new_encoding ::
    "obj list \<Rightarrow> nat \<Rightarrow> obj list \<Rightarrow> (string \<times> int list list) list \<Rightarrow> bool" where
  "returns_new_encoding h encoding h' contents =
     (take (length h) h' = h \<and> length h \<le> encoding \<and>
      (case encoding_at h' encoding of
         None \<Rightarrow> False
       | Some d \<Rightarrow> deref_items h' d = Some contents))"

definition immutable_corpus :: "('c, 't) library \<Rightarrow> bool" where
  "immutable_corpus lib = (\<forall>c i. snd (corpus_getitem lib c i) = c)"

definition stateless_tokenizer ::
    "('c, 't) library \<Rightarrow> (string \<Rightarrow> int \<Rightarrow> (string \<times> int list list) list) \<Rightarrow> bool" where
  "stateless_tokenizer lib contents =
     (\<forall>t h txt l.
        (case tokenizer_call_obj lib t h txt l of
           (encoding, h', t') \<Rightarrow> t' = t \<and> returns_new_encoding h encoding h' (contents txt l)))"

subsection \<open>A small tokenizer and corpus to run the class on\<close>

text \<open>
  One token per character (its code), padding id 0, padding on the right, truncation to
  the target length; an attention mask marks the positions that hold text.
\<close>

definition char_tokenizer :: tokenizer where
  "char_tokenizer =
     \<lparr>pad_token_id = 0,
      input_ids_of = (\<lambda>txt l.
        [take (nat l) (map of_char txt) @ replicate (nat l - length txt) 0]),
      others_of = (\<lambda>txt l.
        [''attention_mask'' \<mapsto>
           [replicate (min (nat l) (length txt)) 1 @ replicate (nat l - length txt) 0]])\<rparr>"

definition demo_corpus :: "item list" where
  "demo_corpus = [\<lparr>item_text = ''hi''\<rparr>, \<lparr>item_text = ''hello''\<rparr>]"

definition demo_globals :: globals where
  "demo_globals = \<lparr>max_length = 4, min_length = 2, num_epochs = 2\<rparr>"

definition demo_dataset :: curriculum_dataset where
  "demo_dataset = \<lparr>dataset = demo_corpus, tokenizer = char_tokenizer, seq_length = 3\<rparr>"

text \<open>
  The same tokenizer and corpus as objects on a store, and a tokenizer that counts its
  calls and returns the count as the only token.
\<close>

definition demo_contents :: "string \<Rightarrow> int \<Rightarrow> (string \<times> int list list) list" where
  "demo_contents txt l =
     [(''input_ids'', input_ids_of char_tokenizer txt l),
      (''attention_mask'',
       [replicate (min (nat l) (length txt)) 1 @ replicate (nat l - length txt) 0])]"

definition demo_library :: "(item list, unit) library" where
  "demo_library =
     \<lparr>corpus_getitem = (\<lambda>c i. (dataset_getitem c i, c)),
      tokenizer_call_obj = (\<lambda>t h txt l.
        (length h + 2,
         h @ map (\<lambda>(key, val). TensorObj val) (demo_contents txt l)
           @ [EncodingObj [(''input_ids'', length h), (''attention_mask'', length h + 1)]],
         t)),
      tokenizer_pad_token_id = (\<lambda>t. pad_token_id char_tokenizer)\<rparr>"

definition counting_library :: "(item list, int) library" where
  "counting_library =
     \<lparr>corpus_getitem = (\<lambda>c i. (dataset_getitem c i, c)),
      tokenizer_call_obj = (\<lambda>t h txt l.
        (length h + 1, h @ [TensorObj [[t]], EncodingObj [(''input_ids'', length h)]], t + 1)),
      tokenizer_pad_token_id = (\<lambda>t. 0)\<rparr>"

definition demo_state :: "(item list, unit) pystate" where
  "demo_state = \<lparr>self_dataset = demo_corpus, self_tokenizer = (), self_seq_length = 3, heap = []\<rparr>"

section \<open>Properties of the schedule\<close>

lemma get_sequence_length_Inr:
  "num_epochs g \<noteq> 0 \<Longrightarrow>
   get_sequence_length g epoch =
     Inr (min (max_length g)
            (min_length g + ((max_length g - min_length g) * epoch) div num_epochs g))"
  by (simp add: get_sequence_length_def floordiv_def)

lemma get_sequence_length_zero:
  "num_epochs g = 0 \<Longrightarrow> get_sequence_length g epoch = Inl ZeroDivisionError"
  by (simp add: get_sequence_length_def floordiv_def)

text \<open>
  C1. For every epoch \<open>\<ge> 0\<close>, minimum length \<open>m > 0\<close>, maximum length \<open>M \<ge> m\<close> and
  epoch count \<open>T > 0\<close>, \<open>get_sequence_length\<close> returns (without error) exactly the
  closed form \<open>min(M, m + floor((M - m) * epoch / T))\<close> of the data model.
\<close>

theorem get_sequence_length_refines_spec:
  assumes "0 \<le> epoch" and "0 < m" and "m \<le> M" and "0 < T"
  shows "get_sequence_length \<lparr>max_length = M, min_length = m, num_epochs = T\<rparr> epoch
           = Inr (schedule_spec epoch m M T)"
proof -
  have "\<lfloor>real_of_int ((M - m) * epoch) / real_of_int T\<rfloor> = ((M - m) * epoch) div T"
    by (rule floor_divide_of_int_eq)
  with \<open>0 < T\<close> show ?thesis
    by (simp add: get_sequence_length_Inr schedule_spec_def)
qed

theorem get_sequence_length_refines_spec_witness:
  "(0::int) \<le> 1 \<and> (0::int) < 1024 \<and> (1024::int) \<le> 4096 \<and> (0::int) < 3 \<and>
   get_sequence_length \<lparr>max_length = 4096, min_length = 1024, num_epochs = 3\<rparr> 1
     = Inr (schedule_spec 1 1024 4096 3) \<and>
   get_sequence_length \<lparr>max_length = 4096, min_length = 1024, num_epochs = 3\<rparr> 1 = Inr 2048"
  using get_sequence_length_refines_spec [of 1 1024 4096 3]
  by (simp add: get_sequence_length_Inr)

text \<open>
  C2 (as the code has it). The schedule validates nothing. It fails exactly when the
  epoch count is 0, and then with Python's own \<open>ZeroDivisionError\<close>; for every other
  integer input, a negative epoch count, a maximum below the minimum and a negative
  epoch included, it returns \<open>min(M, m + ((M - m) * epoch) div T)\<close> and raises nothing.
\<close>

theorem get_sequence_length_no_validation:
  "(get_sequence_length \<lparr>max_length = M, min_length = m, num_epochs = T\<rparr> epoch
      = Inl ZeroDivisionError \<longleftrightarrow> T = 0) \<and>
   (T \<noteq> 0 \<longrightarrow>
      get_sequence_length \<lparr>max_length = M, min_length = m, num_epochs = T\<rparr> epoch
        = Inr (min M (m + ((M - m) * epoch) div T)))"
  by (simp add: get_sequence_length_def floordiv_def)

theorem get_sequence_length_no_validation_witness:
  "(get_sequence_length \<lparr>max_length = 4096, min_length = 1024, num_epochs = 0\<rparr> 1
      = Inl ZeroDivisionError) \<and>
   (-3 \<noteq> (0::int)) \<and>
   get_sequence_length \<lparr>max_length = 1024, min_length = 4096, num_epochs = -3\<rparr> (-2)
     = Inr 1024"
  using get_sequence_length_no_validation [of 4096 1024 0 1]
        get_sequence_length_no_validation [of 1024 4096 "-3" "-2"]
  by simp

text \<open>
  C2 as the specification words it fails: with the notebook's constants a negative epoch
  yields length 0; a maximum below the minimum and a negative epoch count are accepted
  as well. None of the three calls raises.
\<close>

theorem get_sequence_length_invalid_counterexample:
  "get_sequence_length module_globals (-1) = Inr 0 \<and>
   get_sequence_length \<lparr>max_length = 1024, min_length = 4096, num_epochs = 3\<rparr> 1 = Inr 1024 \<and>
   get_sequence_length \<lparr>max_length = 4096, min_length = 1024, num_epochs = -3\<rparr> 1 = Inr 0"
  by (simp add: get_sequence_length_def floordiv_def module_globals_def)

text \<open>
  C6. For \<open>T > 0\<close>, \<open>m > 0\<close>, \<open>M \<ge> m\<close> and epochs \<open>0 \<le> epoch_a < epoch_b\<close> the schedule
  returns a length at both epochs, and the earlier one is not the larger.
\<close>

theorem get_sequence_length_mono:
  assumes "0 < T" and "0 < m" and "m \<le> M" and "0 \<le> epoch_a" and "epoch_a < epoch_b"
  shows "\<exists>la lb.
           get_sequence_length \<lparr>max_length = M, min_length = m, num_epochs = T\<rparr> epoch_a = Inr la \<and>
           get_sequence_length \<lparr>max_length = M, min_length = m, num_epochs = T\<rparr> epoch_b = Inr lb \<and>
           la \<le> lb"
proof -
  from \<open>m \<le> M\<close> \<open>epoch_a < epoch_b\<close> have "(M - m) * epoch_a \<le> (M - m) * epoch_b"
    by (simp add: mult_left_mono)
  then have "((M - m) * epoch_a) div T \<le> ((M - m) * epoch_b) div T"
    using \<open>0 < T\<close> by (rule zdiv_mono1)
  then have "min M (m + ((M - m) * epoch_a) div T) \<le> min M (m + ((M - m) * epoch_b) div T)"
    by simp
  with \<open>0 < T\<close> show ?thesis
    by (simp add: get_sequence_length_Inr)
qed

theorem get_sequence_length_mono_witness:
  "\<exists>la lb.
     get_sequence_length \<lparr>max_length = 4096, min_length = 1024, num_epochs = 3\<rparr> 1 = Inr la \<and>
     get_sequence_length \<lparr>max_length = 4096, min_length = 1024, num_epochs = 3\<rparr> 2 = Inr lb \<and>
     la \<le> lb"
  using get_sequence_length_mono [of 3 1024 4096 1 2] by simp

text \<open>
  C7. For \<open>m > 0\<close>, \<open>M \<ge> m\<close> and \<open>T > 0\<close>: the schedule is \<open>m\<close> at epoch 0, never exceeds
  \<open>M\<close> at an epoch \<open>\<ge> 0\<close>, and is exactly \<open>M\<close> at every epoch \<open>\<ge> T\<close>.
\<close>

theorem get_sequence_length_bounds:
  assumes "0 < m" and "m \<le> M" and "0 < T"
  shows "get_sequence_length \<lparr>max_length = M, min_length = m, num_epochs = T\<rparr> 0 = Inr m \<and>
         (\<forall>epoch\<ge>0. \<exists>l.
            get_sequence_length \<lparr>max_length = M, min_length = m, num_epochs = T\<rparr> epoch = Inr l \<and>
            l \<le> M) \<and>
         (\<forall>epoch\<ge>T.
            get_sequence_length \<lparr>max_length = M, min_length = m, num_epochs = T\<rparr> epoch = Inr M)"
proof (intro conjI allI impI)
  from \<open>m \<le> M\<close> \<open>0 < T\<close>
  show "get_sequence_length \<lparr>max_length = M, min_length = m, num_epochs = T\<rparr> 0 = Inr m"
    by (simp add: get_sequence_length_Inr)
next
  fix epoch :: int
  from \<open>0 < T\<close>
  show "\<exists>l. get_sequence_length \<lparr>max_length = M, min_length = m, num_epochs = T\<rparr> epoch = Inr l
          \<and> l \<le> M"
    by (simp add: get_sequence_length_Inr)
next
  fix epoch :: int
  assume "T \<le> epoch"
  with \<open>m \<le> M\<close> have "(M - m) * T \<le> (M - m) * epoch"
    by (simp add: mult_left_mono)
  then have "((M - m) * T) div T \<le> ((M - m) * epoch) div T"
    using \<open>0 < T\<close> by (rule zdiv_mono1)
  with \<open>0 < T\<close> have "M - m \<le> ((M - m) * epoch) div T"
    by simp
  then have "min M (m + ((M - m) * epoch) div T) = M"
    by simp
  with \<open>0 < T\<close>
  show "get_sequence_length \<lparr>max_length = M, min_length = m, num_epochs = T\<rparr> epoch = Inr M"
    by (simp add: get_sequence_length_Inr)
qed

theorem get_sequence_length_bounds_witness:
  "get_sequence_length \<lparr>max_length = 4096, min_length = 1024, num_epochs = 3\<rparr> 0 = Inr 1024 \<and>
   (\<exists>l. get_sequence_length \<lparr>max_length = 4096, min_length = 1024, num_epochs = 3\<rparr> 2 = Inr l
      \<and> l \<le> 4096) \<and>
   get_sequence_length \<lparr>max_length = 4096, min_length = 1024, num_epochs = 3\<rparr> 7 = Inr 4096"
proof -
  have h: "(0::int) < 1024" "(1024::int) \<le> 4096" "(0::int) < 3"
    by simp_all
  note b = get_sequence_length_bounds [OF h]
  from b have "get_sequence_length \<lparr>max_length = 4096, min_length = 1024, num_epochs = 3\<rparr> 0
                 = Inr 1024"
    by blast
  moreover from b have "\<exists>l. get_sequence_length
                     \<lparr>max_length = 4096, min_length = 1024, num_epochs = 3\<rparr> 2 = Inr l \<and> l \<le> 4096"
    by simp
  moreover from b have "get_sequence_length
                     \<lparr>max_length = 4096, min_length = 1024, num_epochs = 3\<rparr> 7 = Inr 4096"
    by simp
  ultimately show ?thesis by blast
qed

text \<open>
  C8. With the notebook's constants (minimum 1024, maximum 4096, 3 epochs) the schedule
  is 1024, 2048, 3072 and 4096 at epochs 0, 1, 2 and 3.
\<close>

theorem get_sequence_length_module_values:
  "get_sequence_length module_globals 0 = Inr 1024 \<and>
   get_sequence_length module_globals 1 = Inr 2048 \<and>
   get_sequence_length module_globals 2 = Inr 3072 \<and>
   get_sequence_length module_globals 3 = Inr 4096"
  by (simp add: get_sequence_length_def floordiv_def module_globals_def)

section \<open>Properties of the dataset class\<close>

subsection \<open>Indexing the corpus, and the label mask\<close>

lemma dataset_getitem_out:
  "i < - int (length rows) \<or> int (length rows) \<le> i \<Longrightarrow> dataset_getitem rows i = Inl IndexError"
  by (auto simp: dataset_getitem_def Let_def)

lemma dataset_getitem_nonneg:
  "0 \<le> i \<Longrightarrow> i < int (length rows) \<Longrightarrow> dataset_getitem rows i = Inr (rows ! nat i)"
  by (simp add: dataset_getitem_def Let_def)

lemma dataset_getitem_neg:
  "1 \<le> k \<Longrightarrow> k \<le> int (length rows) \<Longrightarrow>
   dataset_getitem rows (- k) = Inr (rows ! nat (int (length rows) - k))"
  by (simp add: dataset_getitem_def Let_def)

lemma dataset_getitem_in:
  "- int (length rows) \<le> i \<Longrightarrow> i < int (length rows) \<Longrightarrow> \<exists>r. dataset_getitem rows i = Inr r"
  by (simp add: dataset_getitem_def Let_def)

lemma map2_same: "map2 h xs (map f xs) = map (\<lambda>x. h x (f x)) xs"
  by (induction xs) simp_all

lemma masked_assign_clone:
  "masked_assign (clone ids) (eq_scalar ids p) v
     = Inr (map (map (\<lambda>x. if x = p then v else x)) ids)"
  by (simp add: masked_assign_def clone_def eq_scalar_def map2_same comp_def)

text \<open>
  The whole of \<open>__getitem__\<close> in two equations: an exception of the corpus lookup is the
  result; otherwise the result is the tokenizer's dictionary with the masked labels added,
  every tensor squeezed. The \<open>KeyError\<close> and mask-shape branches are never taken.
\<close>

lemma getitem_Inl:
  "dataset_getitem (dataset self) idx = Inl e \<Longrightarrow> fst (CurriculumDataset_getitem self idx) = Inl e"
  by (simp add: CurriculumDataset_getitem_def)

lemma getitem_Inr:
  "dataset_getitem (dataset self) idx = Inr item \<Longrightarrow>
   fst (CurriculumDataset_getitem self idx) =
     Inr (\<lambda>key. map_option squeeze0
            (((tokenizer_call (tokenizer self) (item_text item) (seq_length self))
                (''labels'' \<mapsto>
                   map (map (\<lambda>x. if x = pad_token_id (tokenizer self) then - 100 else x))
                     (input_ids_of (tokenizer self) (item_text item) (seq_length self)))) key))"
  by (simp add: CurriculumDataset_getitem_def tokenizer_call_def dict_getitem_def
        masked_assign_clone)

lemmas demo_defs = CurriculumDataset_getitem_def demo_dataset_def demo_corpus_def
  char_tokenizer_def dataset_getitem_def tokenizer_call_def dict_getitem_def clone_def
  eq_scalar_def masked_assign_def squeeze0_def CurriculumDataset_len_def

subsection \<open>The claims about \<open>__getitem__\<close>\<close>

text \<open>
  C3 (as the code has it). \<open>__getitem__\<close> hands the index to the corpus unchecked, so
  the range that succeeds is the one of Python indexing: the call fails with
  \<open>IndexError\<close> if the index is below \<open>-length()\<close> or at least \<open>length()\<close>, and
  returns an example for every index with \<open>-length() \<le> index < length()\<close>.
\<close>

theorem getitem_index_range:
  "(idx < - CurriculumDataset_len self \<or> CurriculumDataset_len self \<le> idx \<longrightarrow>
      fst (CurriculumDataset_getitem self idx) = Inl IndexError) \<and>
   (- CurriculumDataset_len self \<le> idx \<and> idx < CurriculumDataset_len self \<longrightarrow>
      (\<exists>ex. fst (CurriculumDataset_getitem self idx) = Inr ex))"
proof (intro conjI impI)
  assume "idx < - CurriculumDataset_len self \<or> CurriculumDataset_len self \<le> idx"
  then have "dataset_getitem (dataset self) idx = Inl IndexError"
    by (simp add: CurriculumDataset_len_def dataset_getitem_out)
  then show "fst (CurriculumDataset_getitem self idx) = Inl IndexError"
    by (rule getitem_Inl)
next
  assume "- CurriculumDataset_len self \<le> idx \<and> idx < CurriculumDataset_len self"
  then obtain r where "dataset_getitem (dataset self) idx = Inr r"
    using dataset_getitem_in [of "dataset self" idx] by (auto simp: CurriculumDataset_len_def)
  then show "\<exists>ex. fst (CurriculumDataset_getitem self idx) = Inr ex"
    by (simp add: getitem_Inr)
qed

theorem getitem_index_range_witness:
  "CurriculumDataset_len demo_dataset = 2 \<and>
   fst (CurriculumDataset_getitem demo_dataset 2) = Inl IndexError \<and>
   fst (CurriculumDataset_getitem demo_dataset (- 3)) = Inl IndexError \<and>
   (\<exists>ex. fst (CurriculumDataset_getitem demo_dataset (- 2)) = Inr ex) \<and>
   (\<exists>ex. fst (CurriculumDataset_getitem demo_dataset 1) = Inr ex)"
proof -
  have n: "CurriculumDataset_len demo_dataset = 2"
    by (simp add: CurriculumDataset_len_def demo_dataset_def demo_corpus_def)
  show ?thesis
    using getitem_index_range [of 2 demo_dataset] getitem_index_range [of "- 3" demo_dataset]
      getitem_index_range [of "- 2" demo_dataset] getitem_index_range [of 1 demo_dataset]
    by (simp add: n)
qed

text \<open>
  C3 as the specification words it fails at a negative index: over the two-row corpus,
  index \<open>-1\<close> raises nothing and yields the example of the last row (\<open>''hello''\<close>
  truncated to three positions).
\<close>

theorem getitem_negative_index_counterexample:
  "CurriculumDataset_len demo_dataset = 2 \<and> (- 1 :: int) < 0 \<and>
   \<not> isl (fst (CurriculumDataset_getitem demo_dataset (- 1))) \<and>
   projr (fst (CurriculumDataset_getitem demo_dataset (- 1))) ''input_ids''
     = Some (Vec [104, 101, 108])"
  by (simp add: demo_defs)

text \<open>
  C4. In every example that \<open>__getitem__\<close> returns, the labels have the shape of the
  token ids; at every position whose token id is the padding token id the label is
  \<open>-100\<close>, and at every other position the label is the token id itself. (The two
  tensors are given as they are before \<open>squeeze(0)\<close>, which changes no position.)
\<close>

theorem getitem_labels_mask_padding:
  assumes "fst (CurriculumDataset_getitem self idx) = Inr ex"
  shows "\<exists>ids labels.
           ex ''input_ids'' = Some (squeeze0 ids) \<and> ex ''labels'' = Some (squeeze0 labels) \<and>
           length labels = length ids \<and>
           (\<forall>r<length ids.
              length (labels ! r) = length (ids ! r) \<and>
              (\<forall>c<length (ids ! r).
                 (ids ! r ! c = pad_token_id (tokenizer self) \<longrightarrow> labels ! r ! c = - 100) \<and>
                 (ids ! r ! c \<noteq> pad_token_id (tokenizer self) \<longrightarrow> labels ! r ! c = ids ! r ! c)))"
proof (cases "dataset_getitem (dataset self) idx")
  case (Inl e)
  with assms show ?thesis by (simp add: getitem_Inl)
next
  case (Inr item)
  let ?ids = "input_ids_of (tokenizer self) (item_text item) (seq_length self)"
  let ?labels = "map (map (\<lambda>x. if x = pad_token_id (tokenizer self) then - 100 else x)) ?ids"
  from Inr assms have ex: "ex = (\<lambda>key. map_option squeeze0
            (((tokenizer_call (tokenizer self) (item_text item) (seq_length self))
                (''labels'' \<mapsto> ?labels)) key))"
    by (simp add: getitem_Inr)
  have "ex ''input_ids'' = Some (squeeze0 ?ids)"
    by (simp add: ex tokenizer_call_def)
  moreover have "ex ''labels'' = Some (squeeze0 ?labels)"
    by (simp add: ex)
  moreover have "length ?labels = length ?ids"
    by simp
  moreover have "\<forall>r<length ?ids.
              length (?labels ! r) = length (?ids ! r) \<and>
              (\<forall>c<length (?ids ! r).
                 (?ids ! r ! c = pad_token_id (tokenizer self) \<longrightarrow> ?labels ! r ! c = - 100) \<and>
                 (?ids ! r ! c \<noteq> pad_token_id (tokenizer self) \<longrightarrow> ?labels ! r ! c = ?ids ! r ! c))"
    by simp
  ultimately show ?thesis by blast
qed

theorem getitem_labels_mask_padding_witness:
  "fst (CurriculumDataset_getitem demo_dataset 0)
     = Inr (projr (fst (CurriculumDataset_getitem demo_dataset 0))) \<and>
   (\<exists>ids labels.
      projr (fst (CurriculumDataset_getitem demo_dataset 0)) ''input_ids'' = Some (squeeze0 ids) \<and>
      projr (fst (CurriculumDataset_getitem demo_dataset 0)) ''labels'' = Some (squeeze0 labels) \<and>
      length labels = length ids \<and>
      (\<forall>r<length ids.
         length (labels ! r) = length (ids ! r) \<and>
         (\<forall>c<length (ids ! r).
            (ids ! r ! c = pad_token_id (tokenizer demo_dataset) \<longrightarrow> labels ! r ! c = - 100) \<and>
            (ids ! r ! c \<noteq> pad_token_id (tokenizer demo_dataset) \<longrightarrow>
               labels ! r ! c = ids ! r ! c)))) \<and>
   projr (fst (CurriculumDataset_getitem demo_dataset 0)) ''input_ids'' = Some (Vec [104, 105, 0]) \<and>
   projr (fst (CurriculumDataset_getitem demo_dataset 0)) ''labels'' = Some (Vec [104, 105, - 100])"
proof -
  have h: "fst (CurriculumDataset_getitem demo_dataset 0)
             = Inr (projr (fst (CurriculumDataset_getitem demo_dataset 0)))"
    by (simp add: demo_defs)
  have v: "projr (fst (CurriculumDataset_getitem demo_dataset 0)) ''input_ids''
             = Some (Vec [104, 105, 0])"
          "projr (fst (CurriculumDataset_getitem demo_dataset 0)) ''labels''
             = Some (Vec [104, 105, - 100])"
    by (simp_all add: demo_defs)
  from h getitem_labels_mask_padding [OF h] v show ?thesis
    by (intro conjI)
qed

text \<open>
  C5. For a dataset object built by the constructor for an epoch, with target length
  \<open>L = get_sequence_length(epoch)\<close>, and a valid index \<open>0 \<le> idx < length()\<close>: if the
  tokenizer pads or truncates that row's text to \<open>L\<close> positions (its stated capability),
  the returned example's token-id sequence and label sequence are one-dimensional and
  each has exactly \<open>L\<close> positions.
\<close>

theorem getitem_lengths:
  assumes "CurriculumDataset_init g ds tok epoch = Inr self"
    and "0 \<le> idx" and "idx < CurriculumDataset_len self"
    and "pads_to tok (item_text (ds ! nat idx)) (seq_length self)"
  shows "get_sequence_length g epoch = Inr (seq_length self) \<and>
         (\<exists>ex ids labels.
            fst (CurriculumDataset_getitem self idx) = Inr ex \<and>
            ex ''input_ids'' = Some (Vec ids) \<and> ex ''labels'' = Some (Vec labels) \<and>
            int (length ids) = seq_length self \<and> int (length labels) = seq_length self)"
proof -
  from assms(1) obtain l where l: "get_sequence_length g epoch = Inr l"
    and self: "self = \<lparr>dataset = ds, tokenizer = tok, seq_length = l\<rparr>"
    by (auto simp: CurriculumDataset_init_def split: sum.splits)
  from self have fields: "dataset self = ds" "tokenizer self = tok" "seq_length self = l"
    by simp_all
  from assms(4) obtain row where row: "input_ids_of tok (item_text (ds ! nat idx)) l = [row]"
    and len: "int (length row) = l"
    by (auto simp: pads_to_def fields split: list.splits)
  from assms(2,3) have "dataset_getitem (dataset self) idx = Inr (ds ! nat idx)"
    by (simp add: fields CurriculumDataset_len_def dataset_getitem_nonneg)
  note ex = getitem_Inr [OF this]
  let ?ex = "projr (fst (CurriculumDataset_getitem self idx))"
  let ?labels = "map (\<lambda>x. if x = pad_token_id tok then - 100 else x) row"
  have "fst (CurriculumDataset_getitem self idx) = Inr ?ex"
    by (simp add: ex)
  moreover have "?ex ''input_ids'' = Some (Vec row)"
    by (simp add: ex fields tokenizer_call_def row squeeze0_def)
  moreover have "?ex ''labels'' = Some (Vec ?labels)"
    by (simp add: ex fields row squeeze0_def)
  moreover have "int (length ?labels) = seq_length self"
    by (simp add: len fields)
  moreover have "int (length row) = seq_length self"
    by (simp add: len fields)
  ultimately have "\<exists>ex ids labels.
            fst (CurriculumDataset_getitem self idx) = Inr ex \<and>
            ex ''input_ids'' = Some (Vec ids) \<and> ex ''labels'' = Some (Vec labels) \<and>
            int (length ids) = seq_length self \<and> int (length labels) = seq_length self"
    by blast
  moreover from l have "get_sequence_length g epoch = Inr (seq_length self)"
    by (simp add: fields)
  ultimately show ?thesis by blast
qed

theorem getitem_lengths_witness:
  "CurriculumDataset_init demo_globals demo_corpus char_tokenizer 1 = Inr demo_dataset \<and>
   (0::int) \<le> 1 \<and> 1 < CurriculumDataset_len demo_dataset \<and>
   pads_to char_tokenizer (item_text (demo_corpus ! nat 1)) (seq_length demo_dataset) \<and>
   get_sequence_length demo_globals 1 = Inr 3 \<and>
   (\<exists>ex ids labels.
      fst (CurriculumDataset_getitem demo_dataset 1) = Inr ex \<and>
      ex ''input_ids'' = Some (Vec ids) \<and> ex ''labels'' = Some (Vec labels) \<and>
      int (length ids) = 3 \<and> int (length labels) = 3)"
proof -
  have i: "CurriculumDataset_init demo_globals demo_corpus char_tokenizer 1 = Inr demo_dataset"
    by (simp add: CurriculumDataset_init_def demo_globals_def demo_dataset_def
          get_sequence_length_def floordiv_def)
  have n: "1 < CurriculumDataset_len demo_dataset"
    by (simp add: CurriculumDataset_len_def demo_dataset_def demo_corpus_def)
  have p: "pads_to char_tokenizer (item_text (demo_corpus ! nat 1)) (seq_length demo_dataset)"
    by (simp add: pads_to_def char_tokenizer_def demo_corpus_def demo_dataset_def)
  have s: "seq_length demo_dataset = 3"
    by (simp add: demo_dataset_def)
  from getitem_lengths [OF i _ n p] i n p show ?thesis
    by (simp add: s)
qed

text \<open>
  C10. Over a corpus of \<open>n = length()\<close> rows and for every \<open>k\<close> with \<open>1 \<le> k \<le> n\<close>,
  \<open>__getitem__(-k)\<close> does not fail and returns the same example as
  \<open>__getitem__(n - k)\<close>.
\<close>

theorem getitem_negative_index:
  assumes "1 \<le> k" and "k \<le> CurriculumDataset_len self"
  shows "(\<exists>ex. fst (CurriculumDataset_getitem self (- k)) = Inr ex) \<and>
         fst (CurriculumDataset_getitem self (- k))
           = fst (CurriculumDataset_getitem self (CurriculumDataset_len self - k))"
proof -
  let ?n = "int (length (dataset self))"
  from assms have a: "dataset_getitem (dataset self) (- k) = Inr (dataset self ! nat (?n - k))"
    by (simp add: CurriculumDataset_len_def dataset_getitem_neg)
  from assms have b: "dataset_getitem (dataset self) (?n - k) = Inr (dataset self ! nat (?n - k))"
    by (simp add: CurriculumDataset_len_def dataset_getitem_nonneg)
  show ?thesis
    by (simp add: getitem_Inr [OF a] getitem_Inr [OF b] CurriculumDataset_len_def)
qed

theorem getitem_negative_index_witness:
  "(1::int) \<le> 2 \<and> 2 \<le> CurriculumDataset_len demo_dataset \<and>
   (\<exists>ex. fst (CurriculumDataset_getitem demo_dataset (- 2)) = Inr ex) \<and>
   fst (CurriculumDataset_getitem demo_dataset (- 2)) = fst (CurriculumDataset_getitem demo_dataset 0)"
proof -
  have n: "CurriculumDataset_len demo_dataset = 2"
    by (simp add: CurriculumDataset_len_def demo_dataset_def demo_corpus_def)
  have h: "(1::int) \<le> 2" "2 \<le> CurriculumDataset_len demo_dataset"
    by (simp_all add: n)
  note r = getitem_negative_index [OF h]
  from r have "\<exists>ex. fst (CurriculumDataset_getitem demo_dataset (- 2)) = Inr ex"
    by (rule conjunct1)
  moreover from r have "fst (CurriculumDataset_getitem demo_dataset (- 2))
                          = fst (CurriculumDataset_getitem demo_dataset 0)"
    unfolding n by simp
  ultimately show ?thesis
    using h by (intro conjI)
qed

subsection \<open>What a call leaves behind\<close>

lemma masked_assign_same:
  "masked_assign ids (eq_scalar ids p) v = Inr (map (map (\<lambda>x. if x = p then v else x)) ids)"
  by (simp add: masked_assign_def eq_scalar_def map2_same comp_def)

lemma tensor_at_SomeD: "tensor_at h a = Some t \<Longrightarrow> a < length h \<and> h ! a = TensorObj t"
  by (auto simp: tensor_at_def split: if_splits obj.splits)

lemma encoding_at_SomeD: "encoding_at h a = Some d \<Longrightarrow> a < length h \<and> h ! a = EncodingObj d"
  by (auto simp: encoding_at_def split: if_splits obj.splits)

lemma tensor_at_append: "a < length h \<Longrightarrow> tensor_at (h @ xs) a = tensor_at h a"
  by (simp add: tensor_at_def nth_append)

lemma tensor_at_append_new: "tensor_at (h @ [TensorObj t]) (length h) = Some t"
  by (simp add: tensor_at_def)

lemma tensor_at_update_other: "a \<noteq> e \<Longrightarrow> tensor_at (h[e := x]) a = tensor_at h a"
  by (simp add: tensor_at_def)

lemma tensor_at_update_same: "a < length h \<Longrightarrow> tensor_at (h[a := TensorObj t]) a = Some t"
  by (simp add: tensor_at_def)

lemma encoding_at_update_same: "e < length h \<Longrightarrow> encoding_at (h[e := EncodingObj d]) e = Some d"
  by (simp add: encoding_at_def)

lemma encoding_at_update_other: "a \<noteq> e \<Longrightarrow> encoding_at (h[e := x]) a = encoding_at h a"
  by (simp add: encoding_at_def)

lemma map_of_dict_setitem:
  "map_of (dict_setitem d k v) k' = (if k' = k then Some v else map_of d k')"
  by (induction d k v rule: dict_setitem.induct) auto

lemma deref_items_cong:
  "\<forall>p \<in> set d. tensor_at h' (snd p) = tensor_at h (snd p) \<Longrightarrow>
   deref_items h' d = deref_items h d"
  by (induction d) (auto split: option.splits)

lemma deref_items_valid:
  "deref_items h d = Some c \<Longrightarrow> (key, a) \<in> set d \<Longrightarrow> \<exists>t. tensor_at h a = Some t"
  by (induction d arbitrary: c) (auto split: option.splits)

lemma deref_items_map_of:
  "deref_items h d = Some c \<Longrightarrow>
   map_of c key = (case map_of d key of None \<Rightarrow> None | Some a \<Rightarrow> tensor_at h a)"
  by (induction d arbitrary: c) (auto split: option.splits)

lemma deref_items_setitem:
  "deref_items h d = Some c \<Longrightarrow> tensor_at h a = Some t \<Longrightarrow>
   deref_items h (dict_setitem d key a) = Some (dict_setitem c key t)"
  by (induction d arbitrary: c) (auto split: option.splits)

text \<open>
  The three statements of the body after the tokenizer call, on a store in which the
  encoding and its tensors are in place: they return the example that the contents
  determine, and they write only at the encoding and beyond the end of the old store.
\<close>

lemma getitem_steps:
  assumes enc: "encoding_at h1 e = Some d"
    and der: "deref_items h1 d = Some contents"
    and ids: "map_of contents ''input_ids'' = Some ids"
  shows "\<exists>h2 h3.
           assign_labels_clone h1 e = Inr h2 \<and> mask_labels h2 e pad = Inr h3 \<and>
           squeeze_items h3 e =
             Inr (map (\<lambda>(key, val). (key, squeeze0 val))
                    (dict_setitem contents ''labels''
                       (map (map (\<lambda>x. if x = pad then - 100 else x)) ids))) \<and>
           (\<forall>n. n \<le> e \<longrightarrow> take n h3 = take n h1)"
proof -
  let ?masked = "map (map (\<lambda>x. if x = pad then - 100 else x)) ids"
  let ?d' = "dict_setitem d ''labels'' (length h1)"
  let ?h2 = "(h1 @ [TensorObj ids])[e := EncodingObj ?d']"
  let ?h3 = "?h2[length h1 := TensorObj ?masked]"
  from enc have e: "e < length h1" "h1 ! e = EncodingObj d"
    by (simp_all add: encoding_at_SomeD)
  from deref_items_map_of [OF der, of "''input_ids''"] ids
  obtain a where a: "map_of d ''input_ids'' = Some a" "tensor_at h1 a = Some ids"
    by (auto split: option.splits)
  from a(2) have a_lt: "a < length h1" and a_obj: "h1 ! a = TensorObj ids"
    by (simp_all add: tensor_at_SomeD)
  from a_obj e(2) have a_ne: "a \<noteq> e"
    by auto
  have step1: "assign_labels_clone h1 e = Inr ?h2"
    by (simp add: assign_labels_clone_def enc a clone_def)
  have enc2: "encoding_at ?h2 e = Some ?d'"
    using e(1) by (simp add: encoding_at_update_same)
  have lab2: "tensor_at ?h2 (length h1) = Some ids"
    using e(1) by (simp add: tensor_at_update_other tensor_at_append_new)
  have ids2: "tensor_at ?h2 a = Some ids"
    using a_ne a_lt a(2) by (simp add: tensor_at_update_other tensor_at_append)
  have step2: "mask_labels ?h2 e pad = Inr ?h3"
    using a(1) by (simp add: mask_labels_def enc2 map_of_dict_setitem lab2 ids2 masked_assign_same)
  have enc3: "encoding_at ?h3 e = Some ?d'"
    using e(1) enc2 by (simp add: encoding_at_update_other)
  have lab3: "tensor_at ?h3 (length h1) = Some ?masked"
    by (simp add: tensor_at_update_same)
  have "\<forall>p \<in> set d. tensor_at ?h3 (snd p) = tensor_at h1 (snd p)"
  proof
    fix p assume p: "p \<in> set d"
    obtain key b where pb: "p = (key, b)" by (cases p)
    from deref_items_valid [OF der] p pb obtain t where "tensor_at h1 b = Some t"
      by blast
    then have "b < length h1" "h1 ! b = TensorObj t"
      by (simp_all add: tensor_at_SomeD)
    with e(2) have "b \<noteq> e" "b \<noteq> length h1" "b < length h1"
      by auto
    then show "tensor_at ?h3 (snd p) = tensor_at h1 (snd p)"
      by (simp add: pb tensor_at_update_other tensor_at_append)
  qed
  from deref_items_cong [OF this] der have "deref_items ?h3 d = Some contents"
    by simp
  then have der3: "deref_items ?h3 ?d' = Some (dict_setitem contents ''labels'' ?masked)"
    using lab3 by (rule deref_items_setitem)
  have step3: "squeeze_items ?h3 e =
             Inr (map (\<lambda>(key, val). (key, squeeze0 val))
                    (dict_setitem contents ''labels'' ?masked))"
    by (simp add: squeeze_items_def enc3 der3)
  have frame: "\<forall>n. n \<le> e \<longrightarrow> take n ?h3 = take n h1"
    using e(1) by simp
  from step1 step2 step3 frame show ?thesis
    by blast
qed

lemma getitem_steps_KeyError:
  assumes enc: "encoding_at h1 e = Some d"
    and der: "deref_items h1 d = Some contents"
    and ids: "map_of contents ''input_ids'' = None"
  shows "assign_labels_clone h1 e = Inl (Raises KeyError)"
proof -
  from deref_items_map_of [OF der, of "''input_ids''"] ids
  have "map_of d ''input_ids'' = None \<or> (\<exists>a. map_of d ''input_ids'' = Some a \<and> tensor_at h1 a = None)"
    by (auto split: option.splits)
  moreover have "\<not> (\<exists>a. map_of d ''input_ids'' = Some a \<and> tensor_at h1 a = None)"
  proof
    assume "\<exists>a. map_of d ''input_ids'' = Some a \<and> tensor_at h1 a = None"
    then obtain a where a: "map_of d ''input_ids'' = Some a" "tensor_at h1 a = None"
      by blast
    from a(1) have "(''input_ids'', a) \<in> set d"
      by (rule map_of_SomeD)
    from deref_items_valid [OF der this] a(2) show False
      by simp
  qed
  ultimately have "map_of d ''input_ids'' = None"
    by blast
  then show ?thesis
    by (simp add: assign_labels_clone_def enc)
qed

text \<open>
  One call, under the collaborators' contract: the outcome is a function of the corpus,
  the tokenizer and the sequence length, and nothing that was there before has changed.
\<close>

lemma getitem_store_outcome:
  assumes corpus: "immutable_corpus lib" and tok: "stateless_tokenizer lib contents"
  shows "fst (CurriculumDataset_getitem_store lib s idx) =
     (case fst (corpus_getitem lib (self_dataset s) idx) of
        Inl e \<Rightarrow> Inl (Raises e)
      | Inr item \<Rightarrow>
          (case map_of (contents (item_text item) (self_seq_length s)) ''input_ids'' of
             None \<Rightarrow> Inl (Raises KeyError)
           | Some ids \<Rightarrow>
               Inr (map (\<lambda>(key, val). (key, squeeze0 val))
                      (dict_setitem (contents (item_text item) (self_seq_length s)) ''labels''
                         (map (map (\<lambda>x. if x = tokenizer_pad_token_id lib (self_tokenizer s)
                                           then - 100 else x)) ids)))))"
    (is "?res = ?expected")
    and "self_dataset (snd (CurriculumDataset_getitem_store lib s idx)) = self_dataset s"
    (is ?dataset)
    and "self_tokenizer (snd (CurriculumDataset_getitem_store lib s idx)) = self_tokenizer s"
    (is ?tokenizer)
    and "self_seq_length (snd (CurriculumDataset_getitem_store lib s idx)) = self_seq_length s"
    (is ?seq_length)
    and "take (length (heap s)) (heap (snd (CurriculumDataset_getitem_store lib s idx))) = heap s"
    (is ?frame)
proof -
  obtain r c where rc: "corpus_getitem lib (self_dataset s) idx = (r, c)"
    by (cases "corpus_getitem lib (self_dataset s) idx")
  from corpus have "snd (corpus_getitem lib (self_dataset s) idx) = self_dataset s"
    by (simp add: immutable_corpus_def)
  with rc have c: "c = self_dataset s"
    by simp
  have "?res = ?expected \<and> ?dataset \<and> ?tokenizer \<and> ?seq_length \<and> ?frame"
  proof (cases r)
    case (Inl e)
    with rc c show ?thesis
      by (simp add: CurriculumDataset_getitem_store_def)
  next
    case (Inr item)
    let ?contents = "contents (item_text item) (self_seq_length s)"
    obtain e h1 t where call:
      "tokenizer_call_obj lib (self_tokenizer s) (heap s) (item_text item) (self_seq_length s)
         = (e, h1, t)"
      by (cases "tokenizer_call_obj lib (self_tokenizer s) (heap s) (item_text item)
                   (self_seq_length s)")
    from tok [unfolded stateless_tokenizer_def, rule_format,
        of "self_tokenizer s" "heap s" "item_text item" "self_seq_length s"] call
    have t: "t = self_tokenizer s" and new: "returns_new_encoding (heap s) e h1 ?contents"
      by simp_all
    from new obtain d where pre: "take (length (heap s)) h1 = heap s" and fresh: "length (heap s) \<le> e"
      and enc: "encoding_at h1 e = Some d" and der: "deref_items h1 d = Some ?contents"
      by (auto simp: returns_new_encoding_def split: option.splits)
    show ?thesis
    proof (cases "map_of ?contents ''input_ids''")
      case None
      from getitem_steps_KeyError [OF enc der None]
      have "assign_labels_clone h1 e = Inl (Raises KeyError)" .
      with rc c Inr call t None pre show ?thesis
        by (simp add: CurriculumDataset_getitem_store_def)
    next
      case (Some ids)
      from getitem_steps [OF enc der Some, of "tokenizer_pad_token_id lib (self_tokenizer s)"]
      obtain h2 h3 where steps: "assign_labels_clone h1 e = Inr h2"
        "mask_labels h2 e (tokenizer_pad_token_id lib (self_tokenizer s)) = Inr h3"
        "squeeze_items h3 e =
           Inr (map (\<lambda>(key, val). (key, squeeze0 val))
                  (dict_setitem ?contents ''labels''
                     (map (map (\<lambda>x. if x = tokenizer_pad_token_id lib (self_tokenizer s)
                                       then - 100 else x)) ids)))"
        and frame: "\<forall>n. n \<le> e \<longrightarrow> take n h3 = take n h1"
        by blast
      from frame fresh pre have "take (length (heap s)) h3 = heap s"
        by simp
      with rc c Inr call t Some steps show ?thesis
        by (simp add: CurriculumDataset_getitem_store_def)
    qed
  qed
  then show "?res = ?expected" ?dataset ?tokenizer ?seq_length ?frame
    by blast+
qed

lemmas store_defs = CurriculumDataset_getitem_store_def assign_labels_clone_def mask_labels_def
  squeeze_items_def tensor_at_def encoding_at_def masked_assign_def eq_scalar_def clone_def
  squeeze0_def dataset_getitem_def

lemma demo_library_immutable: "immutable_corpus demo_library"
  by (simp add: immutable_corpus_def demo_library_def)

lemma demo_library_stateless: "stateless_tokenizer demo_library demo_contents"
  by (simp add: stateless_tokenizer_def demo_library_def returns_new_encoding_def
        demo_contents_def encoding_at_def tensor_at_def nth_append)

text \<open>
  C9. For a corpus that is immutable and a tokenizer that is a function of the text and
  the target length, \<open>__getitem__\<close> updates no state: after a call the attributes of
  the object, the corpus and the tokenizer are as before, and so is every object that
  was in the store. A second call with the same index, made in the state the first
  left, yields the identical outcome, example or exception.
\<close>

theorem getitem_store_deterministic:
  assumes "immutable_corpus lib" and "stateless_tokenizer lib contents"
    and "CurriculumDataset_getitem_store lib s idx = (r1, s1)"
    and "CurriculumDataset_getitem_store lib s1 idx = (r2, s2)"
  shows "r2 = r1 \<and>
         self_dataset s1 = self_dataset s \<and> self_tokenizer s1 = self_tokenizer s \<and>
         self_seq_length s1 = self_seq_length s \<and>
         take (length (heap s)) (heap s1) = heap s"
proof -
  note first = getitem_store_outcome [OF assms(1,2), of s idx]
  note second = getitem_store_outcome [OF assms(1,2), of s1 idx]
  from first(2-5) assms(3)
  have same: "self_dataset s1 = self_dataset s" "self_tokenizer s1 = self_tokenizer s"
    "self_seq_length s1 = self_seq_length s" "take (length (heap s)) (heap s1) = heap s"
    by simp_all
  from first(1) assms(3) have "r1 = fst (CurriculumDataset_getitem_store lib s idx)"
    by simp
  moreover from second(1) assms(4) have "r2 = fst (CurriculumDataset_getitem_store lib s1 idx)"
    by simp
  moreover have "fst (CurriculumDataset_getitem_store lib s1 idx)
                   = fst (CurriculumDataset_getitem_store lib s idx)"
    unfolding first(1) second(1) same ..
  ultimately show ?thesis
    using same by simp
qed

theorem getitem_store_deterministic_witness:
  "immutable_corpus demo_library \<and> stateless_tokenizer demo_library demo_contents \<and>
   fst (CurriculumDataset_getitem_store demo_library
          (snd (CurriculumDataset_getitem_store demo_library demo_state 0)) 0)
     = fst (CurriculumDataset_getitem_store demo_library demo_state 0) \<and>
   self_dataset (snd (CurriculumDataset_getitem_store demo_library demo_state 0))
     = self_dataset demo_state \<and>
   self_tokenizer (snd (CurriculumDataset_getitem_store demo_library demo_state 0))
     = self_tokenizer demo_state \<and>
   self_seq_length (snd (CurriculumDataset_getitem_store demo_library demo_state 0))
     = self_seq_length demo_state \<and>
   take (length (heap demo_state))
     (heap (snd (CurriculumDataset_getitem_store demo_library demo_state 0))) = heap demo_state \<and>
   fst (CurriculumDataset_getitem_store demo_library demo_state 0)
     = Inr [(''input_ids'', Vec [104, 105, 0]), (''attention_mask'', Vec [1, 1, 0]),
            (''labels'', Vec [104, 105, - 100])]"
proof -
  note d = getitem_store_deterministic [OF demo_library_immutable demo_library_stateless
      prod.collapse [symmetric] prod.collapse [symmetric], where s = demo_state and idx = 0]
  have v: "fst (CurriculumDataset_getitem_store demo_library demo_state 0)
     = Inr [(''input_ids'', Vec [104, 105, 0]), (''attention_mask'', Vec [1, 1, 0]),
            (''labels'', Vec [104, 105, - 100])]"
    by (simp add: store_defs demo_library_def demo_state_def demo_corpus_def demo_contents_def
          char_tokenizer_def)
  from demo_library_immutable demo_library_stateless d v show ?thesis
    by (intro conjI) simp_all
qed

text \<open>
  The conclusion is not a property of every collaborator: with the tokenizer that counts
  its calls, two calls with the same index return different examples.
\<close>

lemma stateful_tokenizer_not_deterministic:
  "immutable_corpus counting_library \<and>
   fst (CurriculumDataset_getitem_store counting_library
          \<lparr>self_dataset = demo_corpus, self_tokenizer = 7, self_seq_length = 3, heap = []\<rparr> 0)
     = Inr [(''input_ids'', Vec [7]), (''labels'', Vec [7])] \<and>
   fst (CurriculumDataset_getitem_store counting_library
          (snd (CurriculumDataset_getitem_store counting_library
             \<lparr>self_dataset = demo_corpus, self_tokenizer = 7, self_seq_length = 3, heap = []\<rparr> 0)) 0)
     = Inr [(''input_ids'', Vec [8]), (''labels'', Vec [8])]"
  by (simp add: store_defs counting_library_def demo_corpus_def immutable_corpus_def)

text \<open>
  On a store and on values the method returns the same: when the tokenizer on the store
  implements the tokenizer of the value model, and the corpus its list of rows, the two
  outcomes agree, and the run on the store is never stuck.
\<close>

lemma getitem_store_agrees:
  assumes "immutable_corpus lib" and "stateless_tokenizer lib contents"
    and rows: "fst (corpus_getitem lib (self_dataset s) idx) = dataset_getitem rows idx"
    and cont: "\<And>txt l. map_of (contents txt l) = tokenizer_call tokr txt l"
    and pad: "tokenizer_pad_token_id lib (self_tokenizer s) = pad_token_id tokr"
  shows "map_sum id map_of (fst (CurriculumDataset_getitem_store lib s idx)) =
         map_sum Raises id
           (fst (CurriculumDataset_getitem
                   \<lparr>dataset = rows, tokenizer = tokr, seq_length = self_seq_length s\<rparr> idx))"
proof (cases "dataset_getitem rows idx")
  case (Inl e)
  then show ?thesis
    by (simp add: getitem_store_outcome(1) [OF assms(1,2)] rows getitem_Inl)
next
  case (Inr item)
  have ids: "map_of (contents (item_text item) (self_seq_length s)) ''input_ids''
               = Some (input_ids_of tokr (item_text item) (self_seq_length s))"
    by (simp add: cont tokenizer_call_def)
  have upd: "map_of (dict_setitem c k v) = (map_of c)(k \<mapsto> v)" for c :: "(string \<times> int list list) list" and k v
    by (rule ext) (simp add: map_of_dict_setitem)
  from Inr rows ids
  have "fst (CurriculumDataset_getitem_store lib s idx) =
          Inr (map (\<lambda>(key, val). (key, squeeze0 val))
                 (dict_setitem (contents (item_text item) (self_seq_length s)) ''labels''
                    (map (map (\<lambda>x. if x = pad_token_id tokr then - 100 else x))
                       (input_ids_of tokr (item_text item) (self_seq_length s)))))"
    by (simp add: getitem_store_outcome(1) [OF assms(1,2)] pad)
  with Inr show ?thesis
    by (simp add: getitem_Inr map_of_map upd cont fun_eq_iff)
qed

end
